theory Spec2Isabelle
  imports Complex_Main "HOL-Library.Multiset" "HOL-Library.Char_ord" "HOL-Library.List_Lexorder"
begin

section \<open>Survey frames, series and cells\<close>

text \<open>
  The tabulation functions of \<^verbatim>\<open>app.py\<close>, \<^verbatim>\<open>section2.py\<close>, \<^verbatim>\<open>section3.py\<close>,
  \<^verbatim>\<open>section4.py\<close> and \<^verbatim>\<open>filters.py\<close> work on a pandas data frame. A cell of the frame is
  missing (NaN), an integer code or a text. A frame is its list of column names and its
  list of records; a record gives the cell of every column (what it gives for a name that is
  not a column is never read: the source tests \<^verbatim>\<open>col in df.columns\<close> first).

  Percentages are floats in the source. They are rationals here, so the arithmetic is exact;
  rounding to one decimal is round-half-to-even, the rule of both \<^verbatim>\<open>Series.round\<close> and
  Python's \<^verbatim>\<open>round\<close>.
\<close>

datatype cell = NA | Num int | Txt string

record frame =
  columns :: "string list"
  rows :: "(string \<Rightarrow> cell) list"

type_synonym series = "cell list"

definition len :: "frame \<Rightarrow> nat" where
  "len df = length (rows df)"

text \<open>\<^verbatim>\<open>df[c]\<close>\<close>

definition col :: "frame \<Rightarrow> string \<Rightarrow> series" where
  "col df c = map (\<lambda>r. r c) (rows df)"

definition dropna :: "series \<Rightarrow> series" where
  "dropna s = filter (\<lambda>v. v \<noteq> NA) s"

definition fillna :: "cell \<Rightarrow> series \<Rightarrow> series" where
  "fillna d s = map (\<lambda>v. if v = NA then d else v) s"

text \<open>\<^verbatim>\<open>series[~series.isin(exclude_values)]\<close>\<close>

definition drop_isin :: "cell list \<Rightarrow> series \<Rightarrow> series" where
  "drop_isin ex s = filter (\<lambda>v. v \<notin> set ex) s"

subsection \<open>Strings\<close>

text \<open>
  Strings are byte strings; \<^verbatim>\<open>upper\<close>, \<^verbatim>\<open>lower\<close> change the ASCII letters and
  \<^verbatim>\<open>strip\<close> removes the ASCII white space.
\<close>

definition upper_char :: "char \<Rightarrow> char" where
  "upper_char c = (let n = of_char c :: nat in if 97 \<le> n \<and> n \<le> 122 then char_of (n - 32) else c)"

definition lower_char :: "char \<Rightarrow> char" where
  "lower_char c = (let n = of_char c :: nat in if 65 \<le> n \<and> n \<le> 90 then char_of (n + 32) else c)"

definition upper :: "string \<Rightarrow> string" where
  "upper s = map upper_char s"

definition lower :: "string \<Rightarrow> string" where
  "lower s = map lower_char s"

definition is_space :: "char \<Rightarrow> bool" where
  "is_space c = (let n = of_char c :: nat in n = 32 \<or> (9 \<le> n \<and> n \<le> 13))"

definition lstrip :: "string \<Rightarrow> string" where
  "lstrip s = dropWhile is_space s"

definition rstrip :: "string \<Rightarrow> string" where
  "rstrip s = rev (dropWhile is_space (rev s))"

definition strip :: "string \<Rightarrow> string" where
  "strip s = rstrip (lstrip s)"

text \<open>\<^verbatim>\<open>s.rstrip('_')\<close>\<close>

definition rstrip_underscore :: "string \<Rightarrow> string" where
  "rstrip_underscore s = rev (dropWhile (\<lambda>c. c = CHR ''_'') (rev s))"

definition digit_char :: "nat \<Rightarrow> char" where
  "digit_char d = char_of (48 + d)"

fun str_nat :: "nat \<Rightarrow> string" where
  "str_nat n = (if n < 10 then [digit_char n] else str_nat (n div 10) @ [digit_char (n mod 10)])"

declare str_nat.simps [simp del]

definition str_int :: "int \<Rightarrow> string" where
  "str_int i = (if i < 0 then CHR ''-'' # str_nat (nat (- i)) else str_nat (nat i))"

text \<open>\<^verbatim>\<open>str(v)\<close>, \<^verbatim>\<open>series.astype(str)\<close>: a missing cell becomes the text \<^verbatim>\<open>nan\<close>.\<close>

fun str_cell :: "cell \<Rightarrow> string" where
  "str_cell NA = ''nan''"
| "str_cell (Num i) = str_int i"
| "str_cell (Txt s) = s"

subsection \<open>Rounding to one decimal\<close>

definition rint :: "rat \<Rightarrow> int" where
  "rint x = (let f = \<lfloor>x\<rfloor>; d = x - of_int f in
     if d < 1 / 2 then f else if 1 / 2 < d then f + 1 else if even f then f else f + 1)"

definition round1 :: "rat \<Rightarrow> rat" where
  "round1 x = of_int (rint (x * 10)) / 10"

subsection \<open>Insertion-ordered dictionaries\<close>

text \<open>
  A Python \<^verbatim>\<open>dict\<close> keeps its keys in the order of their first insertion; so does the hash
  table behind \<^verbatim>\<open>value_counts\<close>. Both are association lists here.
\<close>

type_synonym ('k, 'v) dict = "('k \<times> 'v) list"

text \<open>\<^verbatim>\<open>d[k] = v\<close>\<close>

fun dict_set :: "'k \<Rightarrow> 'v \<Rightarrow> ('k, 'v) dict \<Rightarrow> ('k, 'v) dict" where
  "dict_set k v [] = [(k, v)]"
| "dict_set k v ((k', v') # d) = (if k = k' then (k', v) # d else (k', v') # dict_set k v d)"

text \<open>\<^verbatim>\<open>d.get(k, default)\<close>\<close>

definition dict_get :: "('k, 'v) dict \<Rightarrow> 'k \<Rightarrow> 'v \<Rightarrow> 'v" where
  "dict_get d k dflt = (case map_of d k of None \<Rightarrow> dflt | Some v \<Rightarrow> v)"

text \<open>\<^verbatim>\<open>counts[k] = counts.get(k, 0) + 1\<close>\<close>

definition bump :: "'k \<Rightarrow> ('k, nat) dict \<Rightarrow> ('k, nat) dict" where
  "bump k d = dict_set k (dict_get d k 0 + 1) d"

subsection \<open>Sorting and counting\<close>

text \<open>
  \<^verbatim>\<open>sort_values(..., ascending=False)\<close>: pandas reverses the rows, sorts ascending and
  reverses the result, so that rows with equal keys keep their order.
\<close>

definition sort_desc :: "('a \<Rightarrow> 'k::linorder) \<Rightarrow> 'a list \<Rightarrow> 'a list" where
  "sort_desc key xs = rev (sort_key key (rev xs))"

text \<open>
  \<^verbatim>\<open>series.value_counts()\<close>: missing cells are dropped, the distinct values are tallied in
  the order of their first occurrence, and the tallies are sorted by descending count.
\<close>

definition tally :: "'a list \<Rightarrow> ('a, nat) dict" where
  "tally s = foldl (\<lambda>d v. bump v d) [] s"

definition value_counts :: "series \<Rightarrow> (cell, nat) dict" where
  "value_counts s = sort_desc snd (tally (dropna s))"

section \<open>Frequency tables\<close>

record freq_row =
  answer :: cell
  count :: nat
  percent :: rat

type_synonym freq_table = "freq_row list"


text \<open>\<^verbatim>\<open>tab["percent"] = (tab["count"] / denom * 100).round(1)\<close>\<close>

definition pct :: "nat \<Rightarrow> nat \<Rightarrow> rat" where
  "pct c denom = round1 (of_nat c / of_nat denom * 100)"

definition with_percent :: "nat \<Rightarrow> (cell, nat) dict \<Rightarrow> freq_table" where
  "with_percent denom kvs =
     map (\<lambda>(a, c). \<lparr>answer = a, count = c, percent = pct c denom\<rparr>) kvs"

subsection \<open>\<^verbatim>\<open>freq_single\<close> (app.py, section2.py)\<close>

text \<open>The text that stands for a missing answer (``no data''), in UTF-8.\<close>

definition NO_DATA :: string where
  "NO_DATA = map char_of
     [0xD5, 0x8F, 0xD5, 0xBE, 0xD5, 0xB5, 0xD5, 0xA1, 0xD5, 0xAC, 0xD5, 0xB6, 0xD5, 0xA5,
      0xD6, 0x80, 0x20, 0xD5, 0xB9, 0xD5, 0xAF, 0xD5, 0xA1, 0xD5, 0xB6 :: nat]"

text \<open>\<^verbatim>\<open>series.map(mapping).fillna(series.astype(str))\<close>\<close>

definition map_labels :: "(cell \<rightharpoonup> string) \<Rightarrow> series \<Rightarrow> series" where
  "map_labels m s = map (\<lambda>v. case m v of Some l \<Rightarrow> Txt l | None \<Rightarrow> Txt (str_cell v)) s"

text \<open>The series of \<^verbatim>\<open>freq_single\<close> after the handling of missing cells and exclusions.\<close>

definition eligible :: "frame \<Rightarrow> string \<Rightarrow> cell list option \<Rightarrow> bool \<Rightarrow> series" where
  "eligible df c exclude_values include_null =
     (let series = col df c;
          series = (if include_null then fillna (Txt NO_DATA) series else dropna series)
      in case exclude_values of None \<Rightarrow> series | Some ex \<Rightarrow> drop_isin ex series)"

definition freq_single ::
  "frame \<Rightarrow> string \<Rightarrow> (cell \<rightharpoonup> string) option \<Rightarrow> cell list option \<Rightarrow> bool \<Rightarrow> freq_table" where
  "freq_single df c mapping exclude_values include_null =
     (if c \<notin> set (columns df) then []
      else
        let series = eligible df c exclude_values include_null;
            series = (case mapping of None \<Rightarrow> series | Some m \<Rightarrow> map_labels m series)
        in if series = [] then []
           else
             let tab = filter (\<lambda>(a, n). n > 0) (value_counts series)
             in with_percent (sum_list (map snd tab)) tab)"

text \<open>A table whose answers are labels: \<^verbatim>\<open>{"answer": list(counts.keys()), "count": list(counts.values())}\<close>\<close>

definition label_table :: "nat \<Rightarrow> (string, nat) dict \<Rightarrow> freq_table" where
  "label_table denom counts = with_percent denom (map (\<lambda>(l, c). (Txt l, c)) counts)"

subsection \<open>\<^verbatim>\<open>freq_multi\<close> of section2.py and app.py: YES or blank\<close>

text \<open>\<^verbatim>\<open>astype(str).str.upper().eq("YES")\<close>\<close>

definition is_yes :: "cell \<Rightarrow> bool" where
  "is_yes v = (upper (str_cell v) = ''YES'')"

definition yes_count :: "frame \<Rightarrow> string \<Rightarrow> nat" where
  "yes_count df c = length (filter is_yes (col df c))"

text \<open>\<^verbatim>\<open>labels.get(c, c)\<close>\<close>

definition label_of :: "(string \<rightharpoonup> string) \<Rightarrow> string \<Rightarrow> string" where
  "label_of labels c = (case labels c of None \<Rightarrow> c | Some l \<Rightarrow> l)"

definition present_cols :: "frame \<Rightarrow> string list \<Rightarrow> string list" where
  "present_cols df cols = filter (\<lambda>c. c \<in> set (columns df)) cols"

definition section2_multi_counts ::
  "frame \<Rightarrow> (string \<rightharpoonup> string) \<Rightarrow> string list \<Rightarrow> (string, nat) dict" where
  "section2_multi_counts df labels cs =
     foldl (\<lambda>counts c.
        let label = label_of labels c; cnt = yes_count df c
        in if cnt > 0 then dict_set label cnt counts else counts) [] cs"

definition section2_freq_multi :: "frame \<Rightarrow> string list \<Rightarrow> (string \<rightharpoonup> string) \<Rightarrow> freq_table" where
  "section2_freq_multi df cols labels =
     (let present = present_cols df cols
      in if present = [] then []
         else
           let counts = section2_multi_counts df labels present
           in if counts = [] then []
              else sort_desc percent (label_table (sum_list (map snd counts)) counts))"

subsection \<open>\<^verbatim>\<open>freq_multi\<close> of section4.py: a list of checked tokens\<close>

definition CHECKED_TOKENS :: "string list" where
  "CHECKED_TOKENS = [''1'', ''1.0'', ''Yes'', ''True'', ''checked'']"

text \<open>\<^verbatim>\<open>df[c].dropna().astype(str).isin([...]).sum()\<close>\<close>

definition checked_count :: "frame \<Rightarrow> string \<Rightarrow> nat" where
  "checked_count df c = length (filter (\<lambda>s. s \<in> set CHECKED_TOKENS) (map str_cell (dropna (col df c))))"

definition section4_multi_counts ::
  "frame \<Rightarrow> (string \<rightharpoonup> string) \<Rightarrow> string list \<Rightarrow> (string, nat) dict" where
  "section4_multi_counts df labels cs =
     foldl (\<lambda>counts c.
        let label = label_of labels c; cnt = checked_count df c
        in if cnt > 0 then dict_set label cnt counts else counts) [] cs"

definition section4_freq_multi :: "frame \<Rightarrow> string list \<Rightarrow> (string \<rightharpoonup> string) \<Rightarrow> freq_table" where
  "section4_freq_multi df cols labels =
     (let present = present_cols df cols
      in if present = [] then []
         else
           let counts = section4_multi_counts df labels present
           in if counts = [] then []
              else
                let total_respondents = len df;
                    tab = (if total_respondents > 0 then label_table total_respondents counts
                           else map (\<lambda>(l, c). \<lparr>answer = Txt l, count = c, percent = round1 0\<rparr>) counts)
                in sort_desc percent tab)"

subsection \<open>\<^verbatim>\<open>freq_multi_numbered\<close> (section3.py)\<close>

text \<open>\<^verbatim>\<open>range(1, max_num + 1)\<close>\<close>

definition range1 :: "nat \<Rightarrow> nat list" where
  "range1 max_num = [1..<Suc max_num]"

text \<open>\<^verbatim>\<open>f"{col_prefix}{i}"\<close>\<close>

definition numbered :: "string \<Rightarrow> nat \<Rightarrow> string" where
  "numbered col_prefix i = col_prefix @ str_nat i"

text \<open>
  The values of one slot column that are counted: \<^verbatim>\<open>dropna\<close>, then the exclusion, which
  \<^verbatim>\<open>if exclude_values:\<close> skips for \<^verbatim>\<open>None\<close> and for the empty set.
\<close>

definition slot_values :: "frame \<Rightarrow> cell list option \<Rightarrow> string \<Rightarrow> series" where
  "slot_values df exclude_values col_name =
     (let values = dropna (col df col_name)
      in case exclude_values of
           None \<Rightarrow> values
         | Some ex \<Rightarrow> if ex \<noteq> [] then drop_isin ex values else values)"

text \<open>The inner loop \<^verbatim>\<open>for val in values\<close>.\<close>

definition count_values :: "(cell \<rightharpoonup> string) \<Rightarrow> series \<Rightarrow> (string, nat) dict \<Rightarrow> (string, nat) dict" where
  "count_values mapping values counts =
     foldl (\<lambda>counts val. case mapping val of None \<Rightarrow> counts | Some label \<Rightarrow> bump label counts)
       counts values"

text \<open>The outer loop \<^verbatim>\<open>for i in range(1, max_num + 1)\<close>, from the dictionary \<^verbatim>\<open>counts\<close> so far.\<close>

definition numbered_counts ::
  "frame \<Rightarrow> string \<Rightarrow> (cell \<rightharpoonup> string) \<Rightarrow> cell list option \<Rightarrow> (string, nat) dict \<Rightarrow> nat list \<Rightarrow>
   (string, nat) dict" where
  "numbered_counts df col_prefix mapping exclude_values counts0 idx =
     foldl (\<lambda>counts i.
        let col_name = numbered col_prefix i
        in if col_name \<notin> set (columns df) then counts
           else count_values mapping (slot_values df exclude_values col_name) counts) counts0 idx"

definition freq_multi_numbered ::
  "frame \<Rightarrow> string \<Rightarrow> nat \<Rightarrow> (cell \<rightharpoonup> string) \<Rightarrow> cell list option \<Rightarrow> freq_table" where
  "freq_multi_numbered df col_prefix max_num mapping exclude_values =
     (let counts = numbered_counts df col_prefix mapping exclude_values [] (range1 max_num)
      in if counts = [] then []
         else sort_desc percent (label_table (sum_list (map snd counts)) counts))"


subsection \<open>\<^verbatim>\<open>freq_multi_yes\<close> (section3.py)\<close>

definition yes_numbered_counts ::
  "frame \<Rightarrow> string \<Rightarrow> (cell \<rightharpoonup> string) \<Rightarrow> nat list \<Rightarrow> (string, nat) dict" where
  "yes_numbered_counts df col_prefix mapping idx =
     foldl (\<lambda>counts i.
        let col_name = numbered col_prefix i
        in if col_name \<notin> set (columns df) then counts
           else
             let cnt = yes_count df col_name
             in case mapping (Num (int i)) of
                  Some label \<Rightarrow> if cnt > 0 then dict_set label cnt counts else counts
                | None \<Rightarrow> counts) [] idx"

text \<open>The second loop, over the suffixes \<^verbatim>\<open>_98\<close> and \<^verbatim>\<open>_999\<close>.\<close>

definition yes_suffix_counts ::
  "frame \<Rightarrow> string \<Rightarrow> (cell \<rightharpoonup> string) \<Rightarrow> (string, nat) dict \<Rightarrow> (string, nat) dict" where
  "yes_suffix_counts df col_prefix mapping counts0 =
     foldl (\<lambda>counts key.
        let col_name = rstrip_underscore col_prefix @ ''_'' @ str_nat key
        in if col_name \<in> set (columns df) then
             let cnt = yes_count df col_name
             in if cnt > 0 then
                  (case mapping (Num (int key)) of
                     Some label \<Rightarrow> dict_set label cnt counts
                   | None \<Rightarrow> counts)
                else counts
           else counts) counts0 [98, 999]"

definition freq_multi_yes :: "frame \<Rightarrow> string \<Rightarrow> nat \<Rightarrow> (cell \<rightharpoonup> string) \<Rightarrow> freq_table" where
  "freq_multi_yes df col_prefix max_num mapping =
     (let counts = yes_numbered_counts df col_prefix mapping (range1 max_num);
          counts = yes_suffix_counts df col_prefix mapping counts
      in if counts = [] then []
         else sort_desc percent (label_table (sum_list (map snd counts)) counts))"

section \<open>\<^verbatim>\<open>combine_tom_other_promp\<close> (section3.py)\<close>

text \<open>The value of \<^verbatim>\<open>all_channels[channel]\<close>: the three counts of one channel.\<close>

record channel_counts =
  n_TOM :: nat
  n_Other :: nat
  n_Prompted :: nat

definition no_counts :: channel_counts where
  "no_counts = \<lparr>n_TOM = 0, n_Other = 0, n_Prompted = 0\<rparr>"

record combo_row =
  channel :: cell
  TOM :: rat
  Other :: rat
  Prompted :: rat
  Total :: rat

datatype error = ZeroDivisionError

text \<open>
  \<^verbatim>\<open>if k not in d: d[k] = default\<close> followed by an update of \<^verbatim>\<open>d[k]\<close> in place.
\<close>

fun dict_upd :: "'k \<Rightarrow> 'v \<Rightarrow> ('v \<Rightarrow> 'v) \<Rightarrow> ('k, 'v) dict \<Rightarrow> ('k, 'v) dict" where
  "dict_upd k dflt f [] = [(k, f dflt)]"
| "dict_upd k dflt f ((k', v) # d) =
     (if k = k' then (k', f v) # d else (k', v) # dict_upd k dflt f d)"

definition set_TOM :: "cell \<Rightarrow> nat \<Rightarrow> (cell, channel_counts) dict \<Rightarrow> (cell, channel_counts) dict" where
  "set_TOM k n d = dict_upd k no_counts (\<lambda>c. c\<lparr>n_TOM := n\<rparr>) d"

definition set_Other :: "cell \<Rightarrow> nat \<Rightarrow> (cell, channel_counts) dict \<Rightarrow> (cell, channel_counts) dict" where
  "set_Other k n d = dict_upd k no_counts (\<lambda>c. c\<lparr>n_Other := n\<rparr>) d"

definition set_Prompted :: "cell \<Rightarrow> nat \<Rightarrow> (cell, channel_counts) dict \<Rightarrow> (cell, channel_counts) dict" where
  "set_Prompted k n d = dict_upd k no_counts (\<lambda>c. c\<lparr>n_Prompted := n\<rparr>) d"

text \<open>\<^verbatim>\<open>exclude_values and suffix in exclude_values\<close>\<close>

definition excluded_code :: "cell list option \<Rightarrow> cell \<Rightarrow> bool" where
  "excluded_code exclude_values v =
     (case exclude_values of None \<Rightarrow> False | Some ex \<Rightarrow> ex \<noteq> [] \<and> v \<in> set ex)"

text \<open>
  Step 1, the first mentions. The column holds channel names, so the excluded codes are
  turned into names first.
\<close>

definition exclude_names :: "(cell \<rightharpoonup> string) \<Rightarrow> cell list \<Rightarrow> cell list" where
  "exclude_names mapping ex =
     concat (map (\<lambda>v. case mapping v of None \<Rightarrow> [] | Some l \<Rightarrow> [Txt l]) ex)"

definition tom_series :: "frame \<Rightarrow> string \<Rightarrow> (cell \<rightharpoonup> string) \<Rightarrow> cell list option \<Rightarrow> series" where
  "tom_series df tom_col mapping exclude_values =
     (let s = dropna (col df tom_col)
      in case exclude_values of
           None \<Rightarrow> s
         | Some ex \<Rightarrow> if ex \<noteq> [] then drop_isin (exclude_names mapping ex) s else s)"

definition SKIPPED_NAMES :: "string list" where
  "SKIPPED_NAMES = [''other'', ''nan'', ''none'']"

definition collect_tom ::
  "frame \<Rightarrow> string \<Rightarrow> (cell \<rightharpoonup> string) \<Rightarrow> cell list option \<Rightarrow> (cell, channel_counts) dict" where
  "collect_tom df tom_col mapping exclude_values =
     (if tom_col \<in> set (columns df) then
        foldl (\<lambda>all_channels (channel_name, n).
           if lower (str_cell channel_name) \<in> set SKIPPED_NAMES then all_channels
           else set_TOM channel_name n all_channels)
          [] (value_counts (tom_series df tom_col mapping exclude_values))
      else [])"

text \<open>Steps 2 and 3, the loops over the numbered indicator columns.\<close>

definition collect_numbered ::
  "(cell \<Rightarrow> nat \<Rightarrow> (cell, channel_counts) dict \<Rightarrow> (cell, channel_counts) dict) \<Rightarrow>
   frame \<Rightarrow> string \<Rightarrow> (cell \<rightharpoonup> string) \<Rightarrow> nat list \<Rightarrow>
   (cell, channel_counts) dict \<Rightarrow> (cell, channel_counts) dict" where
  "collect_numbered setter df prefix mapping idx all_channels0 =
     foldl (\<lambda>all_channels i.
        let col_name = numbered prefix i
        in if col_name \<notin> set (columns df) then all_channels
           else
             let cnt = yes_count df col_name
             in case mapping (Num (int i)) of
                  Some label \<Rightarrow> if cnt > 0 then setter (Txt label) cnt all_channels else all_channels
                | None \<Rightarrow> all_channels) all_channels0 idx"

text \<open>Step 4, the prompted columns \<^verbatim>\<open>_98\<close> and \<^verbatim>\<open>_999\<close>.\<close>

definition collect_suffix ::
  "frame \<Rightarrow> string \<Rightarrow> (cell \<rightharpoonup> string) \<Rightarrow> cell list option \<Rightarrow>
   (cell, channel_counts) dict \<Rightarrow> (cell, channel_counts) dict" where
  "collect_suffix df promp_prefix mapping exclude_values all_channels0 =
     foldl (\<lambda>all_channels suffix.
        if excluded_code exclude_values (Num (int suffix)) then all_channels
        else
          let col_name = rstrip_underscore promp_prefix @ ''_'' @ str_nat suffix
          in case mapping (Num (int suffix)) of
               Some label \<Rightarrow>
                 if col_name \<in> set (columns df) then
                   let cnt = yes_count df col_name
                   in if cnt > 0 then set_Prompted (Txt label) cnt all_channels else all_channels
                 else all_channels
             | None \<Rightarrow> all_channels) all_channels0 [98, 999]"

definition collect_channels ::
  "frame \<Rightarrow> string \<Rightarrow> string \<Rightarrow> string \<Rightarrow> nat \<Rightarrow> (cell \<rightharpoonup> string) \<Rightarrow> cell list option \<Rightarrow>
   (cell, channel_counts) dict" where
  "collect_channels df tom_col other_prefix promp_prefix max_num mapping exclude_values =
     (let all_channels = collect_tom df tom_col mapping exclude_values;
          all_channels = collect_numbered set_Other df other_prefix mapping (range1 max_num) all_channels;
          all_channels = collect_numbered set_Prompted df promp_prefix mapping (range1 max_num) all_channels
      in collect_suffix df promp_prefix mapping exclude_values all_channels)"

text \<open>\<^verbatim>\<open>round(n / total_respondents * 100, 1)\<close>\<close>

definition share :: "nat \<Rightarrow> nat \<Rightarrow> rat" where
  "share n total_respondents = round1 (of_nat n / of_nat total_respondents * 100)"

definition combo_of :: "nat \<Rightarrow> cell \<times> channel_counts \<Rightarrow> combo_row" where
  "combo_of total_respondents = (\<lambda>(ch, counts).
     \<lparr>channel = ch,
      TOM = share (n_TOM counts) total_respondents,
      Other = share (n_Other counts) total_respondents,
      Prompted = share (n_Prompted counts) total_respondents,
      Total = share (n_TOM counts + n_Other counts + n_Prompted counts) total_respondents\<rparr>)"

definition combine_tom_other_promp ::
  "frame \<Rightarrow> string \<Rightarrow> string \<Rightarrow> string \<Rightarrow> nat \<Rightarrow> (cell \<rightharpoonup> string) \<Rightarrow> cell list option \<Rightarrow>
   error + combo_row list" where
  "combine_tom_other_promp df tom_col other_prefix promp_prefix max_num mapping exclude_values =
     (let total_respondents = len df;
          all_channels =
            collect_channels df tom_col other_prefix promp_prefix max_num mapping exclude_values
      in if all_channels = [] then Inr []
         else if total_respondents = 0 then Inl ZeroDivisionError
         else Inr (sort_desc Total (map (combo_of total_respondents) all_channels)))"

subsection \<open>Where the counts of a channel come from\<close>





section \<open>\<^verbatim>\<open>process_open_ended_comments\<close> (section4.py)\<close>

record segment_row =
  mentions_count :: nat
  num_users :: nat
  users_percent :: rat

record mention_row =
  Mentioned :: string
  Count :: nat

text \<open>\<^verbatim>\<open>f"{prefix}_{i}comment"\<close>\<close>

definition comment_col :: "string \<Rightarrow> nat \<Rightarrow> string" where
  "comment_col prefix i = prefix @ ''_'' @ str_nat i @ ''comment''"

text \<open>The list given to \<^verbatim>\<open>replace\<close> when the comments of one respondent are counted.\<close>

definition SEGMENT_PLACEHOLDERS :: "string list" where
  "SEGMENT_PLACEHOLDERS = [''nan'', ''None'', ''0'', []]"

text \<open>The list that \<^verbatim>\<open>v_clean.lower()\<close> is tested against when the mentions are collected.\<close>

definition MENTION_PLACEHOLDERS :: "string list" where
  "MENTION_PLACEHOLDERS = [''nan'', [], ''0'', ''none'']"

text \<open>
  \<^verbatim>\<open>x.astype(str).str.strip().replace(["nan", "None", "0", ""], pd.NA).count()\<close> for the
  record \<^verbatim>\<open>x\<close>
\<close>

definition user_count :: "string list \<Rightarrow> (string \<Rightarrow> cell) \<Rightarrow> nat" where
  "user_count valid_comment_cols x =
     length (filter (\<lambda>s. s \<notin> set SEGMENT_PLACEHOLDERS)
       (map (\<lambda>c. strip (str_cell (x c))) valid_comment_cols))"

definition segments_of :: "frame \<Rightarrow> string list \<Rightarrow> segment_row list" where
  "segments_of df valid_comment_cols =
     (let counts_per_user = map (user_count valid_comment_cols) (rows df);
          segments = sort_desc snd (tally counts_per_user);
          segments = sort_key fst (filter (\<lambda>(m, n). m > 0) segments)
      in map (\<lambda>(m, n). \<lparr>mentions_count = m, num_users = n, users_percent = pct n (len df)\<rparr>) segments)"

definition mentions_of :: "frame \<Rightarrow> string list \<Rightarrow> string list" where
  "mentions_of df valid_comment_cols =
     concat (map (\<lambda>c.
        filter (\<lambda>v_clean. lower v_clean \<notin> set MENTION_PLACEHOLDERS)
          (map (\<lambda>v. strip (str_cell v)) (dropna (col df c)))) valid_comment_cols)"

text \<open>
  \<^verbatim>\<open>groupby("normalized").agg(count, first)\<close>: one group for every normalized text, the
  groups in ascending order of their keys; a group is never empty.
\<close>

definition group_mentions :: "string list \<Rightarrow> mention_row list" where
  "group_mentions all_mentions =
     map (\<lambda>k. let g = filter (\<lambda>m. lower m = k) all_mentions
              in \<lparr>Mentioned = hd g, Count = length g\<rparr>)
       (sort (remdups (map lower all_mentions)))"

definition process_open_ended_comments ::
  "frame \<Rightarrow> string \<Rightarrow> nat \<Rightarrow> segment_row list \<times> mention_row list" where
  "process_open_ended_comments df prefix max_slots =
     (let comment_cols = map (comment_col prefix) (range1 max_slots);
          valid_comment_cols = filter (\<lambda>c. c \<in> set (columns df)) comment_cols
      in if valid_comment_cols = [] then ([], [])
         else
           let segments = segments_of df valid_comment_cols;
               all_mentions = mentions_of df valid_comment_cols
           in if all_mentions = [] then (segments, [])
              else (segments, sort_desc Count (group_mentions all_mentions)))"

section \<open>\<^verbatim>\<open>render_filters\<close> (filters.py)\<close>

text \<open>The entry of every filter that selects all records, in UTF-8.\<close>

definition ALL_OPTION :: string where
  "ALL_OPTION = map char_of
     [0xD4, 0xB2, 0xD5, 0xB8, 0xD5, 0xAC, 0xD5, 0xB8, 0xD6, 0x80, 0xD5, 0xA8 :: nat]"

text \<open>\<^verbatim>\<open>filt_df[filt_df[c].isin(values)]\<close>\<close>

definition keep_isin :: "string \<Rightarrow> cell list \<Rightarrow> frame \<Rightarrow> frame" where
  "keep_isin c vals filt_df = filt_df\<lparr>rows := filter (\<lambda>r. r c \<in> set vals) (rows filt_df)\<rparr>"

text \<open>
  A predicate of the filter panel. The first six filters select among the values of a
  column; the last three select among the labels of a code mapping, and the labels are
  turned back into codes. The mappings of the last three come from \<^verbatim>\<open>mappings.py\<close> and
  are parameters here, as the list of their items.
\<close>

datatype predicate =
  ByValue string "cell list"
| ByLabel string "(cell \<times> string) list" "string list"

text \<open>
  \<^verbatim>\<open>[x for x in df[c].dropna().unique().tolist() if x != 99]\<close>; the source sorts the
  list, and uses it for membership tests only.
\<close>

definition unique_codes :: "frame \<Rightarrow> string \<Rightarrow> cell list" where
  "unique_codes df c = filter (\<lambda>x. x \<noteq> Num 99) (remdups (dropna (col df c)))"

definition selected_ids :: "frame \<Rightarrow> string \<Rightarrow> (cell \<times> string) list \<Rightarrow> string list \<Rightarrow> cell list" where
  "selected_ids df c items sel =
     map fst (filter (\<lambda>(k, v). v \<in> set sel) items)
     @ filter (\<lambda>x. str_cell x \<in> set sel) (unique_codes df c)"

text \<open>One filter of the panel: \<^verbatim>\<open>df\<close> is the unfiltered frame, \<^verbatim>\<open>filt_df\<close> the frame so far.\<close>

fun apply_predicate :: "frame \<Rightarrow> predicate \<Rightarrow> frame \<Rightarrow> frame" where
  "apply_predicate df (ByValue c sel) filt_df =
     (if c \<in> set (columns df) then
        if Txt ALL_OPTION \<notin> set sel \<and> sel \<noteq> [] then keep_isin c sel filt_df else filt_df
      else filt_df)"
| "apply_predicate df (ByLabel c items sel) filt_df =
     (if c \<in> set (columns df) then
        if ALL_OPTION \<notin> set sel \<and> sel \<noteq> [] then keep_isin c (selected_ids df c items sel) filt_df
        else filt_df
      else filt_df)"

definition apply_predicates :: "frame \<Rightarrow> predicate list \<Rightarrow> frame \<Rightarrow> frame" where
  "apply_predicates df ps filt_df = foldl (\<lambda>f p. apply_predicate df p f) filt_df ps"

text \<open>
  What the widgets of the panel return, and the three mappings. The lists of options that
  the widgets show are not modelled: a selection is an input of \<^verbatim>\<open>render_filters\<close>.
\<close>

record selections =
  sel_sex :: "cell list"
  sel_age :: "cell list"
  sel_city :: "cell list"
  sel_s4 :: "cell list"
  sel_s5 :: "cell list"
  sel_dev :: "cell list"
  sel_d1_label :: "string list"
  sel_d4_label :: "string list"
  sel_d6_label :: "string list"

record mappings =
  D1_MARITAL_STATUS_MAP :: "(cell \<times> string) list"
  D4_EMPLOYMENT_STATUS_MAP :: "(cell \<times> string) list"
  D6_INCOME_MAP :: "(cell \<times> string) list"

definition render_filters :: "mappings \<Rightarrow> selections \<Rightarrow> frame \<Rightarrow> frame" where
  "render_filters maps w df =
     (let filt_df = df;
          filt_df = apply_predicate df (ByValue ''S2'' (sel_sex w)) filt_df;
          filt_df = apply_predicate df (ByValue ''AGE_GRP'' (sel_age w)) filt_df;
          filt_df = apply_predicate df (ByValue ''S3'' (sel_city w)) filt_df;
          filt_df = apply_predicate df (ByValue ''S4'' (sel_s4 w)) filt_df;
          filt_df = apply_predicate df (ByValue ''S5'' (sel_s5 w)) filt_df;
          filt_df = apply_predicate df (ByValue ''Dev_lbl'' (sel_dev w)) filt_df;
          filt_df = apply_predicate df (ByLabel ''D1'' (D1_MARITAL_STATUS_MAP maps) (sel_d1_label w)) filt_df;
          filt_df = apply_predicate df (ByLabel ''D4'' (D4_EMPLOYMENT_STATUS_MAP maps) (sel_d4_label w)) filt_df;
          filt_df = apply_predicate df (ByLabel ''D6'' (D6_INCOME_MAP maps) (sel_d6_label w)) filt_df
      in filt_df)"

text \<open>The nine predicates of the panel, in the order of the source.\<close>

definition panel :: "mappings \<Rightarrow> selections \<Rightarrow> predicate list" where
  "panel maps w =
     [ByValue ''S2'' (sel_sex w), ByValue ''AGE_GRP'' (sel_age w), ByValue ''S3'' (sel_city w),
      ByValue ''S4'' (sel_s4 w), ByValue ''S5'' (sel_s5 w), ByValue ''Dev_lbl'' (sel_dev w),
      ByLabel ''D1'' (D1_MARITAL_STATUS_MAP maps) (sel_d1_label w),
      ByLabel ''D4'' (D4_EMPLOYMENT_STATUS_MAP maps) (sel_d4_label w),
      ByLabel ''D6'' (D6_INCOME_MAP maps) (sel_d6_label w)]"

section \<open>Example inputs\<close>

text \<open>A record given by the cells that are not missing.\<close>

definition row_of :: "(string \<times> cell) list \<Rightarrow> string \<Rightarrow> cell" where
  "row_of kvs c = (case map_of kvs c of None \<Rightarrow> NA | Some v \<Rightarrow> v)"

text \<open>Ten respondents and the field \<^verbatim>\<open>SEX\<close> with the values 1, 1, 2, 2, 2, NA, NA, 1, 2, 1.\<close>

definition sex_df :: frame where
  "sex_df = \<lparr>columns = [''SEX''],
     rows = map (\<lambda>v. row_of [(''SEX'', v)])
       [Num 1, Num 1, Num 2, Num 2, Num 2, NA, NA, Num 1, Num 2, Num 1]\<rparr>"

definition sex_map :: "cell \<rightharpoonup> string" where
  "sex_map = [Num 1 \<mapsto> ''Male'', Num 2 \<mapsto> ''Female'']"

text \<open>Two respondents with the slots 1, 2, NA and 2, NA, NA.\<close>

definition slots_df :: frame where
  "slots_df = \<lparr>columns = [''Q1'', ''Q2'', ''Q3''],
     rows = [row_of [(''Q1'', Num 1), (''Q2'', Num 2)], row_of [(''Q1'', Num 2)]]\<rparr>"

definition xy_map :: "cell \<rightharpoonup> string" where
  "xy_map = [Num 1 \<mapsto> ''X'', Num 2 \<mapsto> ''Y'']"

text \<open>One respondent and one indicator column that holds the text \<^verbatim>\<open>s\<close>.\<close>

definition indicator_df :: "string \<Rightarrow> frame" where
  "indicator_df s = \<lparr>columns = [''O4_1''], rows = [row_of [(''O4_1'', Txt s)]]\<rparr>"

text \<open>One respondent and the comment slots of the question \<^verbatim>\<open>Q\<close>.\<close>

definition comments_df :: "cell list \<Rightarrow> frame" where
  "comments_df vs =
     (let names = map (comment_col ''Q'') [1..<Suc (length vs)]
      in \<lparr>columns = names, rows = [row_of (zip names vs)]\<rparr>)"

text \<open>Three respondents of a channel question with two channels and the column \<^verbatim>\<open>_98\<close>.\<close>

definition tv_df :: frame where
  "tv_df = \<lparr>columns = [''R1TOM'', ''R1Other_1'', ''R1Other_2'', ''R1Propm_1'', ''R1Propm_2'', ''R1Propm_98''],
     rows = [row_of [(''R1TOM'', Txt ''A''), (''R1Other_2'', Txt ''Yes''), (''R1Propm_1'', Txt ''Yes''),
                     (''R1Propm_2'', Txt ''Yes'')],
             row_of [(''R1TOM'', Txt ''B''), (''R1Other_1'', Txt ''Yes''), (''R1Propm_1'', Txt ''Yes''),
                     (''R1Propm_98'', Txt ''YES'')],
             row_of [(''R1TOM'', Txt ''Other''), (''R1Propm_1'', Txt ''Yes'')]]\<rparr>"

definition tv_map :: "cell \<rightharpoonup> string" where
  "tv_map = [Num 1 \<mapsto> ''A'', Num 2 \<mapsto> ''B'', Num 98 \<mapsto> ''DK'']"

text \<open>Three respondents with a sex and a city.\<close>

definition people_df :: frame where
  "people_df = \<lparr>columns = [''S2'', ''S3''],
     rows = [row_of [(''S2'', Num 1), (''S3'', Txt ''Yerevan'')],
             row_of [(''S2'', Num 2), (''S3'', Txt ''Yerevan'')],
             row_of [(''S2'', Num 1), (''S3'', Txt ''Gyumri'')]]\<rparr>"



text \<open>The channel question without any respondent, and the table of the three respondents.\<close>

definition empty_tv_df :: frame where
  "empty_tv_df = tv_df\<lparr>rows := []\<rparr>"


text \<open>Two predicates of the filter panel.\<close>

definition only_men :: predicate where
  "only_men = ByValue ''S2'' [Num 1]"

definition only_yerevan :: predicate where
  "only_yerevan = ByValue ''S3'' [Txt ''Yerevan'']"

section \<open>Dictionaries, tallies and sorting\<close>

lemma dict_set_subset: "set (dict_set k v d) \<subseteq> insert (k, v) (set d)"
  by (induction d) (auto split: if_splits)



lemma bump_pos: "\<forall>x\<in>set d. 0 < snd x \<Longrightarrow> \<forall>x\<in>set (bump k d). 0 < snd x"
  using dict_set_subset [of k "dict_get d k 0 + 1" d] by (auto simp: bump_def)





lemma set_sort_desc: "set (sort_desc key xs) = set xs"
  by (simp add: sort_desc_def)
































section \<open>No row has a zero count\<close>

lemma foldl_positive:
  assumes "\<forall>x\<in>set d0. 0 < snd x"
    and "\<And>d c. \<forall>x\<in>set d. 0 < snd x \<Longrightarrow> \<forall>x\<in>set (f d c). 0 < snd x"
  shows "\<forall>x\<in>set (foldl f d0 cs). 0 < snd x"
  using assms(1)
proof (induction cs arbitrary: d0)
  case Nil
  then show ?case by simp
next
  case (Cons c cs)
  have "\<forall>x\<in>set (f d0 c). 0 < snd x" using Cons.prems by (rule assms(2))
  then show ?case using Cons.IH by simp
qed

lemma dict_set_positive:
  "\<forall>x\<in>set d. 0 < snd x \<Longrightarrow> 0 < v \<Longrightarrow> \<forall>x\<in>set (dict_set k v d). 0 < snd x"
  using dict_set_subset [of k v d] by auto

lemma in_with_percent:
  "r \<in> set (with_percent n kvs) \<Longrightarrow>
     \<exists>a c. (a, c) \<in> set kvs \<and> answer r = a \<and> count r = c \<and> percent r = pct c n"
  by (auto simp: with_percent_def)

lemma in_label_table:
  "r \<in> set (label_table n d) \<Longrightarrow>
     \<exists>l c. (l, c) \<in> set d \<and> answer r = Txt l \<and> count r = c \<and> percent r = pct c n"
  by (auto simp: label_table_def dest!: in_with_percent)

lemma freq_single_positive: "r \<in> set (freq_single df c mapping ex inc) \<Longrightarrow> 0 < count r"
  by (auto simp: freq_single_def Let_def split: if_splits dest!: in_with_percent)

lemma section2_multi_counts_positive: "\<forall>x\<in>set (section2_multi_counts df labels cs). 0 < snd x"
  unfolding section2_multi_counts_def
  by (rule foldl_positive) (simp_all add: Let_def dict_set_positive)

lemma section4_multi_counts_positive: "\<forall>x\<in>set (section4_multi_counts df labels cs). 0 < snd x"
  unfolding section4_multi_counts_def
  by (rule foldl_positive) (simp_all add: Let_def dict_set_positive)

lemma count_values_positive:
  "\<forall>x\<in>set d. 0 < snd x \<Longrightarrow> \<forall>x\<in>set (count_values m vs d). 0 < snd x"
  unfolding count_values_def
  by (rule foldl_positive) (auto simp: bump_pos split: option.splits)

lemma numbered_counts_positive: "\<forall>x\<in>set (numbered_counts df p m ex [] idx). 0 < snd x"
  unfolding numbered_counts_def
  by (rule foldl_positive) (simp_all add: Let_def count_values_positive)

lemma yes_numbered_counts_positive: "\<forall>x\<in>set (yes_numbered_counts df p m idx). 0 < snd x"
  unfolding yes_numbered_counts_def
  by (rule foldl_positive) (simp_all add: Let_def dict_set_positive split: option.splits)

lemma yes_suffix_counts_positive:
  "\<forall>x\<in>set d. 0 < snd x \<Longrightarrow> \<forall>x\<in>set (yes_suffix_counts df p m d). 0 < snd x"
  unfolding yes_suffix_counts_def
  by (rule foldl_positive) (simp_all add: Let_def dict_set_positive split: option.splits)

lemma section2_freq_multi_positive: "r \<in> set (section2_freq_multi df cols labels) \<Longrightarrow> 0 < count r"
  using section2_multi_counts_positive [of df labels "present_cols df cols"]
  by (auto simp: section2_freq_multi_def Let_def set_sort_desc split: if_splits dest!: in_label_table)

lemma section4_freq_multi_positive: "r \<in> set (section4_freq_multi df cols labels) \<Longrightarrow> 0 < count r"
  using section4_multi_counts_positive [of df labels "present_cols df cols"]
  by (auto simp: section4_freq_multi_def Let_def set_sort_desc split: if_splits dest!: in_label_table)

lemma freq_multi_numbered_positive: "r \<in> set (freq_multi_numbered df p n m ex) \<Longrightarrow> 0 < count r"
  using numbered_counts_positive [of df p m ex "range1 n"]
  by (auto simp: freq_multi_numbered_def Let_def set_sort_desc split: if_splits dest!: in_label_table)

lemma freq_multi_yes_positive: "r \<in> set (freq_multi_yes df p n m) \<Longrightarrow> 0 < count r"
  using yes_suffix_counts_positive [OF yes_numbered_counts_positive, of df p m df p m "range1 n"]
  by (auto simp: freq_multi_yes_def Let_def set_sort_desc split: if_splits dest!: in_label_table)

text \<open>
  Claim C8. Every row of every table that \<^verbatim>\<open>freq_single\<close>, the two \<^verbatim>\<open>freq_multi\<close>,
  \<^verbatim>\<open>freq_multi_numbered\<close> and \<^verbatim>\<open>freq_multi_yes\<close> return has a count greater than zero: an
  answer with no eligible response is not a row.
\<close>

theorem frequency_rows_positive:
  "(\<forall>r\<in>set (freq_single df c mapping ex inc). 0 < count r) \<and>
   (\<forall>r\<in>set (section2_freq_multi df2 cols2 labels2). 0 < count r) \<and>
   (\<forall>r\<in>set (section4_freq_multi df4 cols4 labels4). 0 < count r) \<and>
   (\<forall>r\<in>set (freq_multi_numbered dfn pn nn mn exn). 0 < count r) \<and>
   (\<forall>r\<in>set (freq_multi_yes dfy py ny my). 0 < count r)"
  by (simp add: freq_single_positive section2_freq_multi_positive section4_freq_multi_positive
      freq_multi_numbered_positive freq_multi_yes_positive)

theorem frequency_rows_positive_witness:
  "\<lparr>answer = Txt ''Male'', count = 4, percent = 50\<rparr>
     \<in> set (freq_single sex_df ''SEX'' (Some sex_map) (Some []) False) \<and>
   \<lparr>answer = Txt ''O4_1'', count = 1, percent = 100\<rparr>
     \<in> set (section2_freq_multi (indicator_df ''yes'') [''O4_1''] Map.empty) \<and>
   \<lparr>answer = Txt ''O4_1'', count = 1, percent = 100\<rparr>
     \<in> set (section4_freq_multi (indicator_df ''Yes'') [''O4_1''] Map.empty) \<and>
   \<lparr>answer = Txt ''X'', count = 1, percent = 333 / 10\<rparr>
     \<in> set (freq_multi_numbered slots_df ''Q'' 3 xy_map None) \<and>
   \<lparr>answer = Txt ''DK'', count = 1, percent = 20\<rparr>
     \<in> set (freq_multi_yes tv_df ''R1Propm_'' 2 tv_map) \<and>
   (0::nat) < 4 \<and> (0::nat) < 1"
proof -
  note t = frequency_rows_positive [of sex_df "''SEX''" "Some sex_map" "Some []" False
      "indicator_df ''yes''" "[''O4_1'']" Map.empty "indicator_df ''Yes''" "[''O4_1'']" Map.empty
      slots_df "''Q''" 3 xy_map None tv_df "''R1Propm_''" 2 tv_map]
  have m1: "\<lparr>answer = Txt ''Male'', count = 4, percent = 50\<rparr>
     \<in> set (freq_single sex_df ''SEX'' (Some sex_map) (Some []) False)" by code_simp
  have m2: "\<lparr>answer = Txt ''O4_1'', count = 1, percent = 100\<rparr>
     \<in> set (section2_freq_multi (indicator_df ''yes'') [''O4_1''] Map.empty)" by code_simp
  have m3: "\<lparr>answer = Txt ''O4_1'', count = 1, percent = 100\<rparr>
     \<in> set (section4_freq_multi (indicator_df ''Yes'') [''O4_1''] Map.empty)" by code_simp
  have m4: "\<lparr>answer = Txt ''X'', count = 1, percent = 333 / 10\<rparr>
     \<in> set (freq_multi_numbered slots_df ''Q'' 3 xy_map None)" by code_simp
  have m5: "\<lparr>answer = Txt ''DK'', count = 1, percent = 20\<rparr>
     \<in> set (freq_multi_yes tv_df ''R1Propm_'' 2 tv_map)" by code_simp
  have p1: "(0::nat) < 4"
    using t [THEN conjunct1, rule_format, OF m1] by (simp only: freq_row.select_convs)
  have p2: "(0::nat) < 1"
    using t [THEN conjunct2, THEN conjunct1, rule_format, OF m2] by (simp only: freq_row.select_convs)
  have p3: "(0::nat) < 1"
    using t [THEN conjunct2, THEN conjunct2, THEN conjunct1, rule_format, OF m3]
    by (simp only: freq_row.select_convs)
  have p4: "(0::nat) < 1"
    using t [THEN conjunct2, THEN conjunct2, THEN conjunct2, THEN conjunct1, rule_format, OF m4]
    by (simp only: freq_row.select_convs)
  have p5: "(0::nat) < 1"
    using t [THEN conjunct2, THEN conjunct2, THEN conjunct2, THEN conjunct2, rule_format, OF m5]
    by (simp only: freq_row.select_convs)
  show ?thesis using m1 m2 m3 m4 m5 p1 p5 by (intro conjI)
qed

section \<open>What the counts add up to\<close>



















section \<open>The numbered-column scenario\<close>



section \<open>Values without a label\<close>







section \<open>The single-answer scenario\<close>

text \<open>
  Claim C2, as amended. For the ten records of \<^verbatim>\<open>sex_df\<close>, the mapping
  1 to Male and 2 to Female, an empty exclusion set and \<^verbatim>\<open>include_null = False\<close>,
  \<^verbatim>\<open>freq_single\<close> returns exactly two rows, Male with count 4 and percent 50.0, then
  Female with count 4 and percent 50.0. The two missing records are in neither the counts
  nor the denominator 8. The counts are equal, and the order of the rows is the order in
  which the answers are first met in the input: the first record is Male.
\<close>

theorem freq_single_sex_scenario:
  "freq_single sex_df ''SEX'' (Some sex_map) (Some []) False =
     [\<lparr>answer = Txt ''Male'', count = 4, percent = 50\<rparr>,
      \<lparr>answer = Txt ''Female'', count = 4, percent = 50\<rparr>]"
  by code_simp

text \<open>
  Claim C2 as it was stated lists Female before Male; that is not the table.
\<close>

theorem freq_single_sex_not_female_first:
  "freq_single sex_df ''SEX'' (Some sex_map) (Some []) False \<noteq>
     [\<lparr>answer = Txt ''Female'', count = 4, percent = 50\<rparr>,
      \<lparr>answer = Txt ''Male'', count = 4, percent = 50\<rparr>]"
  by code_simp

section \<open>The combination table\<close>

lemma foldl_unchanged: "(\<And>a x. f a x = a) \<Longrightarrow> foldl f a xs = a"
  by (induction xs) simp_all

lemma col_no_rows: "len df = 0 \<Longrightarrow> col df c = []"
  by (simp add: len_def col_def)

lemma yes_count_no_rows: "len df = 0 \<Longrightarrow> yes_count df c = 0"
  by (simp add: yes_count_def col_no_rows)

lemma value_counts_Nil: "value_counts [] = []"
  by (simp add: value_counts_def dropna_def tally_def sort_desc_def)

lemma collect_tom_no_rows: "len df = 0 \<Longrightarrow> collect_tom df t m ex = []"
  by (simp add: collect_tom_def tom_series_def col_no_rows dropna_def drop_isin_def value_counts_Nil
      split: option.splits)

lemma collect_numbered_no_rows: "len df = 0 \<Longrightarrow> collect_numbered setter df p m idx d = d"
  unfolding collect_numbered_def
  by (rule foldl_unchanged) (simp add: Let_def yes_count_no_rows split: option.splits)

lemma collect_suffix_no_rows: "len df = 0 \<Longrightarrow> collect_suffix df p m ex d = d"
  unfolding collect_suffix_def
  by (rule foldl_unchanged) (simp add: Let_def yes_count_no_rows split: option.splits)

lemma collect_channels_no_rows: "len df = 0 \<Longrightarrow> collect_channels df t op pp n m ex = []"
  by (simp add: collect_channels_def collect_tom_no_rows collect_numbered_no_rows collect_suffix_no_rows)

text \<open>
  Claim C10. When \<^verbatim>\<open>combine_tom_other_promp\<close> has collected a channel, the frame has a
  record, so the division by the number of respondents is never a division by zero; on a
  frame without records the function returns the empty table.
\<close>

theorem no_division_by_zero:
  "(collect_channels df t op pp n m ex \<noteq> [] \<longrightarrow> 0 < len df) \<and>
   (len df = 0 \<longrightarrow> combine_tom_other_promp df t op pp n m ex = Inr []) \<and>
   combine_tom_other_promp df t op pp n m ex \<noteq> Inl ZeroDivisionError"
proof (intro conjI impI)
  assume "collect_channels df t op pp n m ex \<noteq> []"
  then show "0 < len df" using collect_channels_no_rows [of df t op pp n m ex] by auto
next
  assume "len df = 0"
  then show "combine_tom_other_promp df t op pp n m ex = Inr []"
    by (simp add: combine_tom_other_promp_def collect_channels_no_rows)
next
  show "combine_tom_other_promp df t op pp n m ex \<noteq> Inl ZeroDivisionError"
    using collect_channels_no_rows [of df t op pp n m ex]
    by (auto simp: combine_tom_other_promp_def Let_def)
qed

theorem no_division_by_zero_witness:
  "collect_channels tv_df ''R1TOM'' ''R1Other_'' ''R1Propm_'' 2 tv_map (Some [Num 0, Num 999]) \<noteq> [] \<and>
   0 < len tv_df \<and>
   len empty_tv_df = 0 \<and>
   combine_tom_other_promp empty_tv_df ''R1TOM'' ''R1Other_'' ''R1Propm_'' 2 tv_map (Some [Num 0, Num 999]) = Inr []"
proof -
  note t1 = no_division_by_zero [of tv_df "''R1TOM''" "''R1Other_''" "''R1Propm_''" 2 tv_map "Some [Num 0, Num 999]"]
  note t2 = no_division_by_zero [of empty_tv_df "''R1TOM''" "''R1Other_''" "''R1Propm_''" 2 tv_map "Some [Num 0, Num 999]"]
  have h1: "collect_channels tv_df ''R1TOM'' ''R1Other_'' ''R1Propm_'' 2 tv_map (Some [Num 0, Num 999]) \<noteq> []"
    by code_simp
  have h2: "len empty_tv_df = 0" by code_simp
  have a: "0 < len tv_df" using h1 by (rule t1 [THEN conjunct1, rule_format])
  have b: "combine_tom_other_promp empty_tv_df ''R1TOM'' ''R1Other_'' ''R1Propm_'' 2 tv_map (Some [Num 0, Num 999]) = Inr []"
    using h2 by (rule t2 [THEN conjunct2, THEN conjunct1, rule_format])
  show ?thesis using h1 a h2 b by (intro conjI)
qed


























section \<open>The filter panel\<close>

lemma keep_isin_commute: "keep_isin c vs (keep_isin c' vs' f) = keep_isin c' vs' (keep_isin c vs f)"
  by (simp add: keep_isin_def conj_commute)

lemma apply_predicate_commute:
  "apply_predicate df p (apply_predicate df q f) = apply_predicate df q (apply_predicate df p f)"
  by (cases p; cases q) (simp_all add: keep_isin_commute)

lemma apply_predicates_fold: "apply_predicates df ps f = fold (apply_predicate df) ps f"
  by (simp add: apply_predicates_def foldl_conv_fold)

lemma apply_predicates_permute:
  assumes "mset ps = mset qs"
  shows "apply_predicates df ps f = apply_predicates df qs f"
proof -
  have "fold (apply_predicate df) ps = fold (apply_predicate df) qs"
    by (rule fold_multiset_equiv) (simp_all add: assms fun_eq_iff apply_predicate_commute)
  then show ?thesis by (simp add: apply_predicates_fold)
qed

lemma render_filters_panel: "render_filters maps w df = apply_predicates df (panel maps w) df"
  by (simp add: render_filters_def apply_predicates_def panel_def Let_def)

text \<open>
  Claim C7. Two predicates of the filter panel give the same records in either order, and
  so does a sequence of predicates under every permutation; in particular every permutation
  of the nine predicates gives what \<^verbatim>\<open>render_filters\<close> gives.
\<close>

theorem filters_commute:
  "apply_predicate df p (apply_predicate df q f) = apply_predicate df q (apply_predicate df p f) \<and>
   (mset ps = mset qs \<longrightarrow> apply_predicates df ps f = apply_predicates df qs f) \<and>
   (mset qs = mset (panel maps w) \<longrightarrow> apply_predicates df qs df = render_filters maps w df)"
  using apply_predicates_permute [of ps qs df f] apply_predicates_permute [of qs "panel maps w" df df]
  by (simp add: apply_predicate_commute render_filters_panel)

theorem filters_commute_witness:
  "mset [only_men, only_yerevan] = mset [only_yerevan, only_men] \<and>
   apply_predicates people_df [only_men, only_yerevan] people_df =
     apply_predicates people_df [only_yerevan, only_men] people_df \<and>
   map (\<lambda>r. (r ''S2'', r ''S3'')) (rows (apply_predicates people_df [only_men, only_yerevan] people_df)) =
     [(Num 1, Txt ''Yerevan'')]"
proof -
  have h: "mset [only_men, only_yerevan] = mset [only_yerevan, only_men]" by simp
  note t = filters_commute [of people_df only_men only_yerevan people_df "[only_men, only_yerevan]"
      "[only_yerevan, only_men]"]
  have a: "apply_predicates people_df [only_men, only_yerevan] people_df =
     apply_predicates people_df [only_yerevan, only_men] people_df"
    using h by (rule t [THEN conjunct2, THEN conjunct1, rule_format])
  have b: "map (\<lambda>r. (r ''S2'', r ''S3'')) (rows (apply_predicates people_df [only_men, only_yerevan] people_df)) =
     [(Num 1, Txt ''Yerevan'')]" by code_simp
  show ?thesis using h a b by (intro conjI)
qed

section \<open>Open-ended comments\<close>

text \<open>
  The slots A, empty, a, B of one respondent: three mentions, and one row for A and a, with
  the count 2 and the text A.
\<close>

lemma comments_example:
  "process_open_ended_comments (comments_df [Txt ''A'', Txt '''', Txt ''a'', Txt ''B'']) ''Q'' 4 =
     ([\<lparr>mentions_count = 3, num_users = 1, users_percent = 100\<rparr>],
      [\<lparr>Mentioned = ''A'', Count = 2\<rparr>, \<lparr>Mentioned = ''B'', Count = 1\<rparr>])"
  by code_simp

text \<open>
  Claim C5 says that the placeholders are ignored in any casing, both when the mentions of
  a respondent are counted and when the mentions are collected. The code at the comment
  \<^verbatim>\<open>none\<close> in lower case: the respondent is counted with one mention, and no mention is
  collected. With \<^verbatim>\<open>None\<close> the respondent has no mention.
\<close>

theorem lowercase_none_counted_as_mention:
  "process_open_ended_comments (comments_df [Txt ''none'']) ''Q'' 1 =
     ([\<lparr>mentions_count = 1, num_users = 1, users_percent = 100\<rparr>], []) \<and>
   process_open_ended_comments (comments_df [Txt ''None'']) ''Q'' 1 = ([], [])"
  by code_simp

section \<open>Indicator columns\<close>

text \<open>
  Claim C6 says that a value accepted in one casing is accepted in every casing, by every
  tabulation of indicator columns. The code of \<^verbatim>\<open>freq_multi\<close> in section4.py at the
  values \<^verbatim>\<open>Yes\<close> and \<^verbatim>\<open>YES\<close>: the first is a selection, the second is not, while
  \<^verbatim>\<open>freq_multi\<close> of section2.py takes both.
\<close>

theorem section4_freq_multi_case_sensitive:
  "section4_freq_multi (indicator_df ''Yes'') [''O4_1''] Map.empty =
     [\<lparr>answer = Txt ''O4_1'', count = 1, percent = 100\<rparr>] \<and>
   section4_freq_multi (indicator_df ''YES'') [''O4_1''] Map.empty = [] \<and>
   section2_freq_multi (indicator_df ''Yes'') [''O4_1''] Map.empty =
     [\<lparr>answer = Txt ''O4_1'', count = 1, percent = 100\<rparr>] \<and>
   section2_freq_multi (indicator_df ''YES'') [''O4_1''] Map.empty =
     [\<lparr>answer = Txt ''O4_1'', count = 1, percent = 100\<rparr>]"
  by code_simp

end
